theory Spec2Isabelle
  imports Complex_Main "HOL-Library.Word"
begin

section \<open>JavaScript values used by script.js\<close>

subsection \<open>Numbers\<close>

text \<open>
  A JavaScript number is either NaN or a numeric value. The numeric values are idealised:
  arithmetic on them is exact, so the rounding, the overflow to an infinity and the
  signed zero of IEEE doubles are outside the model. NaN is kept, because the guards of
  \<open>updateCostAndEmail\<close> are comparisons, and every comparison with NaN is false.
\<close>

datatype jsnum = NaN | Num real

fun js_mul :: "jsnum \<Rightarrow> jsnum \<Rightarrow> jsnum" where
  "js_mul (Num x) (Num y) = Num (x * y)"
| "js_mul _ _ = NaN"

text \<open>
  Every divisor in the script is a non-zero constant (1000, 1024); a zero divisor, which
  JavaScript answers with an infinity or NaN, gets NaN here.
\<close>

fun js_div :: "jsnum \<Rightarrow> jsnum \<Rightarrow> jsnum" where
  "js_div (Num x) (Num y) = (if y = 0 then NaN else Num (x / y))"
| "js_div _ _ = NaN"

text \<open>The comparison \<open>a <= b\<close>: false as soon as one side is NaN.\<close>

fun js_le :: "jsnum \<Rightarrow> jsnum \<Rightarrow> bool" where
  "js_le (Num x) (Num y) = (x \<le> y)"
| "js_le _ _ = False"

fun js_lt :: "jsnum \<Rightarrow> jsnum \<Rightarrow> bool" where
  "js_lt (Num x) (Num y) = (x < y)"
| "js_lt _ _ = False"

fun is_NaN :: "jsnum \<Rightarrow> bool" where
  "is_NaN NaN = True"
| "is_NaN (Num _) = False"

subsection \<open>Strings\<close>

text \<open>
  A JavaScript string is a sequence of UTF-16 code units. \<open>lit\<close> turns an ASCII literal
  of the script into code units; the two non-ASCII characters of the script's templates
  are written as their code units.
\<close>

type_synonym jsstring = "16 word list"

definition lit :: "string \<Rightarrow> jsstring" where
  "lit s = map of_char s"

definition rupee :: jsstring where
  "rupee = [0x20B9]"

definition superscript3 :: jsstring where
  "superscript3 = [0x00B3]"

definition newline :: jsstring where
  "newline = [0x000A]"

text \<open>
  \<open>String.prototype.trim\<close> removes the white space and line terminator code points of
  ECMAScript from both ends.
\<close>

definition isWhiteSpace :: "16 word \<Rightarrow> bool" where
  "isWhiteSpace c \<longleftrightarrow>
     c = 0x0009 \<or> c = 0x000A \<or> c = 0x000B \<or> c = 0x000C \<or> c = 0x000D \<or> c = 0x0020 \<or>
     c = 0x00A0 \<or> c = 0x1680 \<or> (0x2000 \<le> c \<and> c \<le> 0x200A) \<or> c = 0x2028 \<or>
     c = 0x2029 \<or> c = 0x202F \<or> c = 0x205F \<or> c = 0x3000 \<or> c = 0xFEFF"

definition trim :: "jsstring \<Rightarrow> jsstring" where
  "trim s = rev (dropWhile isWhiteSpace (rev (dropWhile isWhiteSpace s)))"

section \<open>Data of the page and of the script\<close>

text \<open>
  The configuration constants of script.js.
\<close>

definition COST_PER_GRAM :: jsnum where
  "COST_PER_GRAM = Num 10"

definition TARGET_EMAIL :: jsstring where
  "TARGET_EMAIL = lit ''your-print-service@example.com''"

text \<open>
  An \<open>option\<close> element of the material select: its \<open>value\<close>, and the number that
  \<open>parseFloat(option.dataset.density)\<close> yields (NaN when the attribute is missing or
  is not numeric). The option elements belong to the HTML page, which the script does not
  contain; the functions below take them as the parameter \<open>opts\<close>.
\<close>

record material_option =
  opt_value :: jsstring
  opt_density :: jsnum

text \<open>
  The file of a change event, and what reading and parsing it gives. For a geometry the
  model keeps what the script reads from it: the extents that
  \<open>geometry.boundingBox.getSize\<close> reports after \<open>computeBoundingBox\<close> and \<open>center\<close>.
\<close>

record js_file =
  file_name :: jsstring
  file_size :: nat

record vector3 =
  vx :: jsnum
  vy :: jsnum
  vz :: jsnum

record geometry =
  boundingBoxSize :: vector3

datatype parse_result = ParseFailure | Parsed geometry

text \<open>
  Objects of the 3D library. A mesh has an identity (the number of meshes created before
  it), its geometry, and a material of its own. The camera, the renderer and the orbit
  controls are opaque: the script creates them in \<open>initThreeJS\<close> and never assigns the
  variables again; the camera pose that \<open>fitCameraToObject\<close> sets, the render loop and
  the resize listener are not part of the model.
\<close>

record mesh =
  mesh_id :: nat
  mesh_geometry :: geometry

datatype object3d = AmbientLight | DirectionalLight | MeshObject mesh

datatype camera = PerspectiveCamera

datatype renderer = WebGLRenderer

datatype controls = OrbitControls

datatype resource = GeometryOf nat | MaterialOf nat

text \<open>
  What the script writes into the page. The text of an element is kept as the template
  the script used together with the values it put in; the functions \<open>fileInfoText\<close>,
  \<open>costResultHTML\<close> and \<open>mailtoHref\<close> below give the strings. \<open>NoFileInfo\<close> stands
  for the file info before the script has written it.
\<close>

datatype file_info =
    NoFileInfo
  | FileSelected jsstring nat
  | LoadError jsstring
  | ReadError jsstring

datatype cost_result =
    UploadPrompt
  | MaterialPrompt
  | Estimate jsnum jsstring jsnum jsnum jsnum

record email =
  mail_fileName :: jsstring
  mail_color :: jsstring
  mail_materialName :: jsstring
  mail_volume :: jsnum
  mail_mass :: jsnum
  mail_cost :: jsnum

text \<open>
  The state: the variables of the script, the parts of the page it reads and writes,
  and three counters that only record what happened (how often \<open>initThreeJS\<close> ran,
  how many meshes were created, which geometries and materials were disposed).
\<close>

record state =
  scene :: "object3d list option"
  camera :: "camera option"
  renderer :: "renderer option"
  controls :: "controls option"
  currentMesh :: "mesh option"
  modelVolumeCm3 :: jsnum
  loadedFileName :: jsstring
  fileInfo :: file_info
  viewerMessage :: jsstring
  colorInput_value :: jsstring
  colorInput_disabled :: bool
  materialInput_selected :: "material_option option"
  materialInput_disabled :: bool
  costResult :: cost_result
  emailLink_href :: "email option"
  emailLink_disabled :: bool
  emailStatus :: jsstring
  initCalls :: nat
  meshesCreated :: nat
  disposed :: "resource list"

section \<open>The strings shown to the user\<close>

text \<open>
  The templates of the script. Three built-in functions of the JavaScript runtime appear
  in them and are parameters here: \<open>toFixed2\<close> for \<open>Number.prototype.toFixed(2)\<close>,
  \<open>toStr\<close> for the conversion of a number inside a template literal, and \<open>encode\<close> for
  \<open>encodeURIComponent\<close>.
\<close>

definition fileInfoText :: "(jsnum \<Rightarrow> jsstring) \<Rightarrow> file_info \<Rightarrow> jsstring" where
  \<open>fileInfoText toFixed2 i =
     (case i of
        NoFileInfo \<Rightarrow> []
      | FileSelected name bytes \<Rightarrow>
          lit ''File: '' @ name @ lit '' ('' @
          toFixed2 (js_div (js_div (Num (real bytes)) (Num 1024)) (Num 1024)) @ lit '' MB)''
      | LoadError name \<Rightarrow> lit ''File: '' @ name @ lit '' - Load Error''
      | ReadError name \<Rightarrow> lit ''File: '' @ name @ lit '' - Read Error'')\<close>

definition approximationNote :: jsstring where
  \<open>approximationNote =
     lit ''<p class="warning"><strong>Note:</strong> Volume calculation is an approximation.</p>''\<close>

definition costResultHTML ::
  "(jsnum \<Rightarrow> jsstring) \<Rightarrow> (jsnum \<Rightarrow> jsstring) \<Rightarrow> cost_result \<Rightarrow> jsstring" where
  \<open>costResultHTML toFixed2 toStr r =
     (case r of
        UploadPrompt \<Rightarrow>
          lit ''<p>Please upload a file and select material.</p><p>Rate: '' @ rupee @
          toStr COST_PER_GRAM @ lit '' per gram</p>'' @ approximationNote
      | MaterialPrompt \<Rightarrow>
          lit ''<p>Please select a valid material.</p><p>Rate: '' @ rupee @
          toStr COST_PER_GRAM @ lit '' per gram</p>'' @ approximationNote
      | Estimate volume materialName density massGrams estimatedCost \<Rightarrow>
          newline @
          lit ''        <p>Est. Volume: '' @ toFixed2 volume @ lit '' cm'' @ superscript3 @
          lit '' (Approximate)</p>'' @ newline @
          lit ''        <p>Material: '' @ materialName @ lit '' ('' @ toStr density @
          lit '' g/cm'' @ superscript3 @ lit '')</p>'' @ newline @
          lit ''        <p>Est. Mass: '' @ toFixed2 massGrams @ lit '' g</p>'' @ newline @
          lit ''        <p><strong>Estimated Cost: '' @ rupee @ toFixed2 estimatedCost @
          lit ''</strong></p>'' @ newline @
          lit ''         '' @ approximationNote @ newline @
          lit ''    '')\<close>

definition mailSubject :: "email \<Rightarrow> jsstring" where
  "mailSubject m = lit ''3D Print Quote Request - '' @ mail_fileName m"

definition mailBody :: "(jsnum \<Rightarrow> jsstring) \<Rightarrow> email \<Rightarrow> jsstring" where
  "mailBody toFixed2 m =
     lit ''Hello,'' @ newline @ newline @
     lit ''Please find the details for a 3D printing quote request below:'' @ newline @ newline @
     lit ''File Name: '' @ mail_fileName m @ newline @
     lit ''Color: '' @ mail_color m @ newline @
     lit ''Material: '' @ mail_materialName m @ newline @
     lit ''Estimated Volume: '' @ toFixed2 (mail_volume m) @ lit '' cm'' @ superscript3 @
     lit '' (approx.)'' @ newline @
     lit ''Estimated Mass: '' @ toFixed2 (mail_mass m) @ lit '' g (approx.)'' @ newline @
     lit ''Estimated Cost: '' @ rupee @ toFixed2 (mail_cost m) @ lit '' (approx.)'' @
     newline @ newline @
     lit ''(Remember to attach the STL file: '' @ mail_fileName m @ lit '')'' @
     newline @ newline @
     lit ''Thank you.''"

definition mailtoHref ::
  "(jsnum \<Rightarrow> jsstring) \<Rightarrow> (jsstring \<Rightarrow> jsstring) \<Rightarrow> email \<Rightarrow> jsstring" where
  "mailtoHref toFixed2 encode m =
     lit ''mailto:'' @ TARGET_EMAIL @ lit ''?subject='' @ encode (mailSubject m) @
     lit ''&body='' @ encode (mailBody toFixed2 m)"

section \<open>The functions of script.js\<close>

text \<open>
  \<open>initThreeJS\<close>: the scene with its two lights, the camera, the renderer and the
  controls are created together.
\<close>

definition initThreeJS :: "state \<Rightarrow> state" where
  "initThreeJS s =
     s\<lparr>scene := Some [AmbientLight, DirectionalLight],
       camera := Some PerspectiveCamera,
       renderer := Some WebGLRenderer,
       controls := Some OrbitControls,
       initCalls := Suc (initCalls s)\<rparr>"

text \<open>
  \<open>resetState\<close>. \<open>scene.remove\<close> takes the first occurrence of the object out of the
  children. Setting the select's value to the empty string selects the first option whose
  value is empty, and leaves no option selected when there is none.
\<close>

definition resetState :: "material_option list \<Rightarrow> state \<Rightarrow> state" where
  "resetState opts s =
     (let s1 = (case (scene s, currentMesh s) of
                  (Some children, Some m) \<Rightarrow>
                    s\<lparr>scene := Some (remove1 (MeshObject m) children),
                      disposed := disposed s @ [GeometryOf (mesh_id m), MaterialOf (mesh_id m)],
                      currentMesh := None\<rparr>
                | _ \<Rightarrow> s);
          s2 = s1\<lparr>viewerMessage :=
                    (if renderer s1 = None then lit ''Please upload an STL file to view.''
                     else [])\<rparr>
      in s2\<lparr>colorInput_value := [],
            materialInput_selected := find (\<lambda>opt. opt_value opt = []) opts,
            modelVolumeCm3 := Num 0,
            loadedFileName := [],
            costResult := UploadPrompt,
            emailLink_disabled := True,
            emailLink_href := None,
            emailStatus := [],
            colorInput_disabled := True,
            materialInput_disabled := True\<rparr>)"

definition enableInputsAndCalc :: "state \<Rightarrow> state" where
  "enableInputsAndCalc s = s\<lparr>colorInput_disabled := False, materialInput_disabled := False\<rparr>"

text \<open>
  \<open>updateCostAndEmail\<close>. With no option selected, \<open>selectedOptions[0]\<close> is undefined and
  reading its \<open>dataset\<close> throws a TypeError; nothing has been written at that point.
\<close>

datatype js_error = TypeError

definition updateCostAndEmail :: "state \<Rightarrow> js_error + state" where
  "updateCostAndEmail s =
     (if currentMesh s = None \<or> js_le (modelVolumeCm3 s) (Num 0) then
        Inr (s\<lparr>costResult := UploadPrompt,
               emailLink_disabled := True,
               emailLink_href := None,
               emailStatus := []\<rparr>)
      else
        (case materialInput_selected s of
           None \<Rightarrow> Inl TypeError
         | Some selectedOption \<Rightarrow>
            (let density = opt_density selectedOption;
                 materialName = opt_value selectedOption;
                 color = (if trim (colorInput_value s) = [] then lit ''Not specified''
                          else trim (colorInput_value s))
             in if materialName = [] \<or> js_le density (Num 0) then
                  Inr (s\<lparr>costResult := MaterialPrompt,
                         emailLink_disabled := True,
                         emailLink_href := None,
                         emailStatus := []\<rparr>)
                else
                  (let massGrams = js_mul (modelVolumeCm3 s) density;
                       estimatedCost = js_mul massGrams COST_PER_GRAM
                   in Inr (s\<lparr>costResult :=
                                 Estimate (modelVolumeCm3 s) materialName density massGrams
                                   estimatedCost,
                               emailLink_href :=
                                 Some \<lparr>mail_fileName = loadedFileName s,
                                       mail_color = color,
                                       mail_materialName = materialName,
                                       mail_volume = modelVolumeCm3 s,
                                       mail_mass = massGrams,
                                       mail_cost = estimatedCost\<rparr>,
                               emailLink_disabled := False,
                               emailStatus := lit ''Ready to generate email draft.''\<rparr>)))))"

text \<open>
  The change listener of the file input, up to the start of the read. The read is
  asynchronous: its end is one of the two events below.
\<close>

definition fileInput_change :: "material_option list \<Rightarrow> js_file option \<Rightarrow> state \<Rightarrow> state" where
  "fileInput_change opts f s =
     (case f of
        None \<Rightarrow> s
      | Some file \<Rightarrow>
          resetState opts
            (s\<lparr>loadedFileName := file_name file,
               fileInfo := FileSelected (file_name file) (file_size file),
               viewerMessage := lit ''Loading model...''\<rparr>))"

text \<open>The catch block of \<open>reader.onload\<close>.\<close>

definition onload_catch :: "material_option list \<Rightarrow> state \<Rightarrow> state" where
  "onload_catch opts s =
     resetState opts
       (s\<lparr>viewerMessage := lit ''Error loading STL file. Please check the file format.'',
          fileInfo := LoadError (loadedFileName s)\<rparr>)"

text \<open>
  \<open>reader.onload\<close>: \<open>loader.parse\<close> either throws or gives a geometry.
  \<open>onload_try\<close> is the try block from the parse up to the call of
  \<open>updateCostAndEmail\<close>; the volume is assigned in two steps, as in the script.
\<close>

definition onload_try :: "geometry \<Rightarrow> state \<Rightarrow> state" where
  "onload_try g s =
     (let s1 = (if scene s = None then initThreeJS s else s\<lparr>viewerMessage := []\<rparr>);
          bsize = boundingBoxSize g;
          s2 = s1\<lparr>modelVolumeCm3 :=
                    js_div (js_mul (js_mul (vx bsize) (vy bsize)) (vz bsize)) (Num 1000)\<rparr>;
          s3 = s2\<lparr>modelVolumeCm3 := js_mul (modelVolumeCm3 s2) (Num 0.4)\<rparr>;
          m = \<lparr>mesh_id = meshesCreated s3, mesh_geometry = g\<rparr>;
          s4 = s3\<lparr>currentMesh := Some m,
                  meshesCreated := Suc (meshesCreated s3),
                  scene := map_option (\<lambda>children. children @ [MeshObject m]) (scene s3)\<rparr>
      in enableInputsAndCalc s4)"

definition reader_onload :: "material_option list \<Rightarrow> parse_result \<Rightarrow> state \<Rightarrow> state" where
  "reader_onload opts r s =
     (case r of
        ParseFailure \<Rightarrow> onload_catch opts s
      | Parsed g \<Rightarrow>
          (case updateCostAndEmail (onload_try g s) of
             Inr s' \<Rightarrow> s'
           | Inl e \<Rightarrow> onload_catch opts (onload_try g s)))"

definition reader_onerror :: "material_option list \<Rightarrow> state \<Rightarrow> state" where
  "reader_onerror opts s =
     resetState opts
       (s\<lparr>viewerMessage := lit ''Error reading file.'',
          fileInfo := ReadError (loadedFileName s)\<rparr>)"

text \<open>
  The listeners of the two inputs call \<open>updateCostAndEmail\<close>; an exception it throws
  ends the listener. A disabled input takes no user input, and the select can only be
  set to one of its options.
\<close>

definition listener :: "state \<Rightarrow> state" where
  "listener s = (case updateCostAndEmail s of Inr s' \<Rightarrow> s' | Inl e \<Rightarrow> s)"

definition colorInput_input :: "jsstring \<Rightarrow> state \<Rightarrow> state" where
  "colorInput_input v s =
     (if colorInput_disabled s then s else listener (s\<lparr>colorInput_value := v\<rparr>))"

definition materialInput_change :: "material_option list \<Rightarrow> nat \<Rightarrow> state \<Rightarrow> state" where
  "materialInput_change opts i s =
     (if materialInput_disabled s \<or> length opts \<le> i then s
      else listener (s\<lparr>materialInput_selected := Some (opts ! i)\<rparr>))"

section \<open>Runs of the page\<close>

text \<open>
  The events of the page. The end of a read is an event of its own, so that a run may
  have anything between the selection of a file and the end of its read; the result of
  the read comes with the event.
\<close>

datatype event =
    FileChange "js_file option"
  | ReaderLoad parse_result
  | ReaderError
  | ColorInput jsstring
  | MaterialChange nat

fun step :: "material_option list \<Rightarrow> state \<Rightarrow> event \<Rightarrow> state" where
  "step opts s (FileChange f) = fileInput_change opts f s"
| "step opts s (ReaderLoad r) = reader_onload opts r s"
| "step opts s ReaderError = reader_onerror opts s"
| "step opts s (ColorInput v) = colorInput_input v s"
| "step opts s (MaterialChange i) = materialInput_change opts i s"

definition run :: "material_option list \<Rightarrow> state \<Rightarrow> event list \<Rightarrow> state" where
  "run opts s es = foldl (step opts) s es"

text \<open>
  The state when the script starts: the variables as declared, a page on which the script
  has written nothing. The last statement of the script is a call of \<open>resetState\<close>.
\<close>

definition declared :: state where
  "declared =
     \<lparr>scene = None, camera = None, renderer = None, controls = None, currentMesh = None,
      modelVolumeCm3 = Num 0, loadedFileName = [], fileInfo = NoFileInfo,
      viewerMessage = [], colorInput_value = [], colorInput_disabled = False,
      materialInput_selected = None, materialInput_disabled = False,
      costResult = UploadPrompt, emailLink_href = None, emailLink_disabled = False,
      emailStatus = [], initCalls = 0, meshesCreated = 0, disposed = []\<rparr>"

definition initial :: "material_option list \<Rightarrow> state" where
  "initial opts = resetState opts declared"

section \<open>Notions used in the statements\<close>

text \<open>A read that ends with a geometry.\<close>

fun successful_load :: "event \<Rightarrow> bool" where
  "successful_load (ReaderLoad (Parsed g)) = True"
| "successful_load _ = False"

text \<open>The bounding-box extents that an event brings in.\<close>

fun extents :: "event \<Rightarrow> jsnum list" where
  "extents (ReaderLoad (Parsed g)) =
     [vx (boundingBoxSize g), vy (boundingBoxSize g), vz (boundingBoxSize g)]"
| "extents _ = []"

definition non_negative :: "jsnum \<Rightarrow> bool" where
  "non_negative v = js_le (Num 0) v"

text \<open>
  The volume, mass and cost values present in a state: the stored volume, the values of
  a displayed estimate, and the values of a prepared email.
\<close>

definition amounts :: "state \<Rightarrow> jsnum list" where
  "amounts s =
     modelVolumeCm3 s #
     (case costResult s of Estimate v n d m c \<Rightarrow> [v, m, c] | _ \<Rightarrow> []) @
     (case emailLink_href s of Some e \<Rightarrow> [mail_volume e, mail_mass e, mail_cost e] | None \<Rightarrow> [])"

text \<open>
  Invariants of the runs. The scene holds each object once, every mesh in it was created
  before, and the current mesh is in the scene.
\<close>

definition scene_inv :: "state \<Rightarrow> bool" where
  "scene_inv s \<longleftrightarrow>
     (scene s = None \<longrightarrow> currentMesh s = None) \<and>
     (\<forall>children. scene s = Some children \<longrightarrow>
        distinct children \<and>
        (\<forall>m. MeshObject m \<in> set children \<longrightarrow> mesh_id m < meshesCreated s) \<and>
        (\<forall>m. currentMesh s = Some m \<longrightarrow> MeshObject m \<in> set children))"

text \<open>The stored volume is a number that is not negative, the selected option is one of
  the page, and no amount is negative.\<close>

definition amounts_inv :: "material_option list \<Rightarrow> state \<Rightarrow> bool" where
  "amounts_inv opts s \<longleftrightarrow>
     (\<exists>r. 0 \<le> r \<and> modelVolumeCm3 s = Num r) \<and>
     (\<forall>opt. materialInput_selected s = Some opt \<longrightarrow> opt \<in> set opts) \<and>
     list_all non_negative (amounts s)"

text \<open>A link has been prepared only for a mesh whose volume passed the guard.\<close>

definition href_inv :: "state \<Rightarrow> bool" where
  "href_inv s \<longleftrightarrow>
     (emailLink_href s \<noteq> None \<longrightarrow>
        currentMesh s \<noteq> None \<and> \<not> js_le (modelVolumeCm3 s) (Num 0))"

text \<open>The stored file name is empty, and so is the file name of a prepared email.\<close>

definition name_inv :: "state \<Rightarrow> bool" where
  "name_inv s \<longleftrightarrow>
     loadedFileName s = [] \<and> (\<forall>m. emailLink_href s = Some m \<longrightarrow> mail_fileName m = [])"

subsection \<open>Sample inputs\<close>

text \<open>
  A page with a placeholder option and two materials, a file, the geometry of a cube of
  20 mm, and a geometry with a NaN coordinate (a binary STL file can hold one).
\<close>

definition sample_options :: "material_option list" where
  "sample_options =
     [\<lparr>opt_value = [], opt_density = Num 0\<rparr>,
      \<lparr>opt_value = lit ''PLA'', opt_density = Num 1.24\<rparr>,
      \<lparr>opt_value = lit ''ABS'', opt_density = Num 1.04\<rparr>]"

definition sample_file :: js_file where
  "sample_file = \<lparr>file_name = lit ''cube.stl'', file_size = 684\<rparr>"

definition sample_geometry :: geometry where
  "sample_geometry = \<lparr>boundingBoxSize = \<lparr>vx = Num 20, vy = Num 20, vz = Num 20\<rparr>\<rparr>"

definition nan_geometry :: geometry where
  "nan_geometry = \<lparr>boundingBoxSize = \<lparr>vx = NaN, vy = Num 20, vz = Num 20\<rparr>\<rparr>"

text \<open>
  The upload of the file, the same upload followed by the choice of the second option,
  and the two with the NaN geometry; the mesh of the first upload.
\<close>

definition sample_upload :: "event list" where
  "sample_upload = [FileChange (Some sample_file), ReaderLoad (Parsed sample_geometry)]"

definition sample_order :: "event list" where
  "sample_order =
     [FileChange (Some sample_file), ReaderLoad (Parsed sample_geometry), MaterialChange 1]"

definition nan_upload :: "event list" where
  "nan_upload = [FileChange (Some sample_file), ReaderLoad (Parsed nan_geometry)]"

definition nan_order :: "event list" where
  "nan_order =
     [FileChange (Some sample_file), ReaderLoad (Parsed nan_geometry), MaterialChange 1]"

definition sample_mesh :: mesh where
  "sample_mesh = \<lparr>mesh_id = 0, mesh_geometry = sample_geometry\<rparr>"

definition sample_PLA :: material_option where
  "sample_PLA = \<lparr>opt_value = lit ''PLA'', opt_density = Num 1.24\<rparr>"

text \<open>
  Two color edits after the order, and a page whose second option has no numeric density.
\<close>

definition sample_red :: "event list" where
  "sample_red =
     [FileChange (Some sample_file), ReaderLoad (Parsed sample_geometry), MaterialChange 1,
      ColorInput (lit ''  red '')]"

definition sample_blank :: "event list" where
  "sample_blank =
     [FileChange (Some sample_file), ReaderLoad (Parsed sample_geometry), MaterialChange 1,
      ColorInput (lit ''   '')]"

definition sample_PETG :: material_option where
  "sample_PETG = \<lparr>opt_value = lit ''PETG'', opt_density = NaN\<rparr>"

definition nan_density_options :: "material_option list" where
  "nan_density_options = [\<lparr>opt_value = [], opt_density = Num 0\<rparr>, sample_PETG]"

section \<open>Facts about the functions\<close>

lemmas eval_defs = run_def initial_def declared_def resetState_def fileInput_change_def
  reader_onload_def onload_try_def onload_catch_def reader_onerror_def colorInput_input_def
  materialInput_change_def listener_def updateCostAndEmail_def enableInputsAndCalc_def
  initThreeJS_def Let_def sample_options_def sample_file_def sample_geometry_def
  nan_geometry_def lit_def trim_def isWhiteSpace_def COST_PER_GRAM_def

lemmas sample_defs = sample_upload_def sample_order_def nan_upload_def nan_order_def
  sample_mesh_def sample_PLA_def sample_red_def sample_blank_def sample_PETG_def
  nan_density_options_def

subsection \<open>Field by field\<close>

lemma resetState_fields:
  "modelVolumeCm3 (resetState opts s) = Num 0"
  "loadedFileName (resetState opts s) = []"
  "costResult (resetState opts s) = UploadPrompt"
  "emailLink_href (resetState opts s) = None"
  "emailLink_disabled (resetState opts s)"
  "emailStatus (resetState opts s) = []"
  "colorInput_value (resetState opts s) = []"
  "colorInput_disabled (resetState opts s)"
  "materialInput_disabled (resetState opts s)"
  "materialInput_selected (resetState opts s) = find (\<lambda>opt. opt_value opt = []) opts"
  "fileInfo (resetState opts s) = fileInfo s"
  "camera (resetState opts s) = camera s"
  "renderer (resetState opts s) = renderer s"
  "controls (resetState opts s) = controls s"
  "initCalls (resetState opts s) = initCalls s"
  "meshesCreated (resetState opts s) = meshesCreated s"
  "viewerMessage (resetState opts s) =
     (if renderer s = None then lit ''Please upload an STL file to view.'' else [])"
  by (auto simp add: resetState_def Let_def split: option.splits)

lemma resetState_mesh:
  "currentMesh (resetState opts s) = (if scene s = None then currentMesh s else None)"
  "scene (resetState opts s) =
     (case (scene s, currentMesh s) of
        (Some children, Some m) \<Rightarrow> Some (remove1 (MeshObject m) children)
      | _ \<Rightarrow> scene s)"
  "disposed (resetState opts s) =
     (case (scene s, currentMesh s) of
        (Some children, Some m) \<Rightarrow> disposed s @ [GeometryOf (mesh_id m), MaterialOf (mesh_id m)]
      | _ \<Rightarrow> disposed s)"
  by (simp_all add: resetState_def Let_def split: option.splits)

lemma resetState_scene_defined: "scene (resetState opts s) = None \<longleftrightarrow> scene s = None"
  by (simp add: resetState_mesh split: option.splits)

lemma onload_try_fields:
  "modelVolumeCm3 (onload_try g s) =
     js_mul (js_div (js_mul (js_mul (vx (boundingBoxSize g)) (vy (boundingBoxSize g)))
                            (vz (boundingBoxSize g))) (Num 1000)) (Num 0.4)"
  "currentMesh (onload_try g s) = Some \<lparr>mesh_id = meshesCreated s, mesh_geometry = g\<rparr>"
  "meshesCreated (onload_try g s) = Suc (meshesCreated s)"
  "scene (onload_try g s) =
     Some ((case scene s of None \<Rightarrow> [AmbientLight, DirectionalLight] | Some children \<Rightarrow> children)
           @ [MeshObject \<lparr>mesh_id = meshesCreated s, mesh_geometry = g\<rparr>])"
  "initCalls (onload_try g s) = (if scene s = None then Suc (initCalls s) else initCalls s)"
  "camera (onload_try g s) = (if scene s = None then Some PerspectiveCamera else camera s)"
  "renderer (onload_try g s) = (if scene s = None then Some WebGLRenderer else renderer s)"
  "controls (onload_try g s) = (if scene s = None then Some OrbitControls else controls s)"
  "loadedFileName (onload_try g s) = loadedFileName s"
  "materialInput_selected (onload_try g s) = materialInput_selected s"
  "costResult (onload_try g s) = costResult s"
  "emailLink_href (onload_try g s) = emailLink_href s"
  by (auto simp add: onload_try_def Let_def enableInputsAndCalc_def initThreeJS_def)

lemma updateCostAndEmail_frame:
  assumes "updateCostAndEmail s = Inr s'"
  shows "modelVolumeCm3 s' = modelVolumeCm3 s" "currentMesh s' = currentMesh s"
    "scene s' = scene s" "camera s' = camera s" "renderer s' = renderer s"
    "controls s' = controls s" "initCalls s' = initCalls s" "meshesCreated s' = meshesCreated s"
    "disposed s' = disposed s" "loadedFileName s' = loadedFileName s"
    "materialInput_selected s' = materialInput_selected s"
  using assms
  by (auto simp: updateCostAndEmail_def Let_def split: if_splits option.splits)

lemma updateCostAndEmail_returns:
  "materialInput_selected s \<noteq> None \<Longrightarrow> \<exists>s'. updateCostAndEmail s = Inr s'"
  by (auto simp: updateCostAndEmail_def Let_def)

lemma listener_frame:
  "scene (listener s) = scene s" "camera (listener s) = camera s"
  "renderer (listener s) = renderer s" "controls (listener s) = controls s"
  "initCalls (listener s) = initCalls s"
  by (auto simp: listener_def updateCostAndEmail_frame split: sum.splits)

lemma onload_catch_fields:
  "scene (onload_catch opts s) = scene (resetState opts s)"
  "initCalls (onload_catch opts s) = initCalls s"
  "camera (onload_catch opts s) = camera s"
  "renderer (onload_catch opts s) = renderer s"
  "controls (onload_catch opts s) = controls s"
  "emailLink_href (onload_catch opts s) = None"
  by (simp_all add: onload_catch_def resetState_fields resetState_mesh split: option.splits)

lemma initial_fields:
  "scene (initial opts) = None" "initCalls (initial opts) = 0"
  "currentMesh (initial opts) = None" "meshesCreated (initial opts) = 0"
  "loadedFileName (initial opts) = []" "emailLink_href (initial opts) = None"
  "modelVolumeCm3 (initial opts) = Num 0" "costResult (initial opts) = UploadPrompt"
  "materialInput_selected (initial opts) = find (\<lambda>opt. opt_value opt = []) opts"
  by (simp_all add: initial_def resetState_fields resetState_mesh declared_def)

lemma run_Nil: "run opts s [] = s"
  by (simp add: run_def)

lemma run_snoc: "run opts s (es @ [e]) = step opts (run opts s es) e"
  by (simp add: run_def)

subsection \<open>Numbers and strings\<close>

lemma js_lt_not_le: "js_lt (Num 0) d \<Longrightarrow> \<not> js_le d (Num 0)"
  by (cases d) auto

lemma non_negative_iff: "non_negative v \<longleftrightarrow> (\<exists>r. 0 \<le> r \<and> v = Num r)"
  by (cases v) (simp_all add: non_negative_def)

lemma find_in_set: "find P xs = Some x \<Longrightarrow> x \<in> set xs"
  by (auto simp: find_Some_iff)

lemma trim_Nil_iff: "trim v = [] \<longleftrightarrow> list_all isWhiteSpace v"
proof
  assume "trim v = []"
  then have all: "\<forall>c \<in> set (dropWhile isWhiteSpace v). isWhiteSpace c"
    by (simp add: trim_def dropWhile_eq_Nil_conv)
  have "dropWhile isWhiteSpace v = []"
  proof (rule ccontr)
    assume ne: "dropWhile isWhiteSpace v \<noteq> []"
    then have "\<not> isWhiteSpace (hd (dropWhile isWhiteSpace v))" by (rule hd_dropWhile)
    moreover from ne have "hd (dropWhile isWhiteSpace v) \<in> set (dropWhile isWhiteSpace v)"
      by simp
    ultimately show False using all by blast
  qed
  then show "list_all isWhiteSpace v" by (simp add: dropWhile_eq_Nil_conv list_all_iff)
next
  assume "list_all isWhiteSpace v"
  then have eq: "dropWhile isWhiteSpace v = []"
    by (simp add: dropWhile_eq_Nil_conv list_all_iff)
  show "trim v = []" unfolding trim_def eq by simp
qed

lemma trim_samples:
  "trim (lit ''  red '') = lit ''red''" "\<not> list_all isWhiteSpace (lit ''  red '')"
  "list_all isWhiteSpace (lit ''   '')"
  by (simp_all add: trim_def lit_def isWhiteSpace_def)

subsection \<open>One step\<close>

text \<open>
  A property of the state is kept by every listener when it is kept by \<open>resetState\<close>
  after the writes that precede it, by the try block, by \<open>updateCostAndEmail\<close> and
  by the input of the user.
\<close>

lemma step_preserves:
  assumes P: "P s"
    and reset: "\<And>t n i v. P t \<Longrightarrow>
                  P (resetState opts (t\<lparr>loadedFileName := n, fileInfo := i, viewerMessage := v\<rparr>))"
    and tried: "\<And>g. e = ReaderLoad (Parsed g) \<Longrightarrow> P s \<Longrightarrow> P (onload_try g s)"
    and update: "\<And>t t'. P t \<Longrightarrow> updateCostAndEmail t = Inr t' \<Longrightarrow> P t'"
    and color: "\<And>t v. P t \<Longrightarrow> P (t\<lparr>colorInput_value := v\<rparr>)"
    and material: "\<And>t i. P t \<Longrightarrow> i < length opts \<Longrightarrow>
                     P (t\<lparr>materialInput_selected := Some (opts ! i)\<rparr>)"
  shows "P (step opts s e)"
proof -
  have swap: "t\<lparr>viewerMessage := v, fileInfo := i\<rparr> =
              t\<lparr>loadedFileName := loadedFileName t, fileInfo := i, viewerMessage := v\<rparr>"
    for t :: state and v i
    by (cases t) simp
  have catch: "P (onload_catch opts t)" if "P t" for t
    using reset [OF that, where n = "loadedFileName t"
        and i = "LoadError (loadedFileName t)"
        and v = "lit ''Error loading STL file. Please check the file format.''"]
    by (simp only: onload_catch_def swap)
  have listen: "P (listener t)" if "P t" for t
    using that update [OF that] by (cases "updateCostAndEmail t") (simp_all add: listener_def)
  show ?thesis
  proof (cases e)
    case (FileChange f)
    with P reset show ?thesis
      by (cases f) (simp_all add: fileInput_change_def)
  next
    case (ReaderLoad r)
    show ?thesis
    proof (cases r)
      case ParseFailure
      with ReaderLoad catch [OF P] show ?thesis by (simp add: reader_onload_def)
    next
      case (Parsed g)
      with ReaderLoad P have t: "P (onload_try g s)" by (simp add: tried)
      show ?thesis
        using ReaderLoad Parsed update [OF t] catch [OF t]
        by (cases "updateCostAndEmail (onload_try g s)") (simp_all add: reader_onload_def)
    qed
  next
    case ReaderError
    with reset [OF P, where n = "loadedFileName s" and i = "ReadError (loadedFileName s)"
        and v = "lit ''Error reading file.''"]
    show ?thesis
      by (simp only: reader_onerror_def swap step.simps)
  next
    case (ColorInput v)
    with P listen [OF color [OF P]] show ?thesis by (simp add: colorInput_input_def)
  next
    case (MaterialChange i)
    with P listen [OF material [OF P]] show ?thesis
      by (simp add: materialInput_change_def)
  qed
qed

text \<open>What a step does to the scene, to the count of initialisations and to the devices.\<close>

lemma step_context:
  "(scene (step opts s e) = None \<longleftrightarrow> scene s = None \<and> \<not> successful_load e) \<and>
   initCalls (step opts s e) =
     (if scene s = None \<and> successful_load e then Suc (initCalls s) else initCalls s) \<and>
   (scene s \<noteq> None \<longrightarrow>
      camera (step opts s e) = camera s \<and> renderer (step opts s e) = renderer s \<and>
      controls (step opts s e) = controls s)"
proof (cases e)
  case (FileChange f)
  then show ?thesis
    by (cases f) (simp_all add: fileInput_change_def resetState_fields resetState_scene_defined)
next
  case (ReaderLoad r)
  show ?thesis
  proof (cases r)
    case ParseFailure
    with ReaderLoad show ?thesis
      by (simp add: reader_onload_def onload_catch_fields resetState_scene_defined)
  next
    case (Parsed g)
    show ?thesis
    proof (cases "updateCostAndEmail (onload_try g s)")
      case (Inl err)
      with ReaderLoad Parsed show ?thesis
        by (auto simp add: reader_onload_def onload_catch_fields onload_try_fields
            resetState_scene_defined)
    next
      case (Inr s')
      with ReaderLoad Parsed show ?thesis
        by (auto simp add: reader_onload_def updateCostAndEmail_frame [OF Inr]
            onload_try_fields)
    qed
  qed
next
  case ReaderError
  then show ?thesis
    by (simp add: reader_onerror_def resetState_fields resetState_scene_defined)
next
  case (ColorInput v)
  then show ?thesis by (simp add: colorInput_input_def listener_frame)
next
  case (MaterialChange i)
  then show ?thesis by (simp add: materialInput_change_def listener_frame)
qed

text \<open>
  While there is no scene, a step leaves the devices as they are unless it is a read that
  ends with a geometry: that step is the one that creates them.
\<close>

lemma step_creates_devices:
  assumes "scene s = None"
  shows "camera (step opts s e) = (if successful_load e then Some PerspectiveCamera else camera s) \<and>
         renderer (step opts s e) = (if successful_load e then Some WebGLRenderer else renderer s) \<and>
         controls (step opts s e) = (if successful_load e then Some OrbitControls else controls s)"
proof (cases e)
  case (FileChange f)
  then show ?thesis
    by (cases f) (simp_all add: fileInput_change_def resetState_fields)
next
  case (ReaderLoad r)
  show ?thesis
  proof (cases r)
    case ParseFailure
    with ReaderLoad show ?thesis
      by (simp add: reader_onload_def onload_catch_fields)
  next
    case (Parsed g)
    show ?thesis
    proof (cases "updateCostAndEmail (onload_try g s)")
      case (Inl err)
      with ReaderLoad Parsed assms show ?thesis
        by (simp add: reader_onload_def onload_catch_fields onload_try_fields)
    next
      case (Inr s')
      with ReaderLoad Parsed assms show ?thesis
        by (simp add: reader_onload_def updateCostAndEmail_frame [OF Inr] onload_try_fields)
    qed
  qed
next
  case ReaderError
  then show ?thesis by (simp add: reader_onerror_def resetState_fields)
next
  case (ColorInput v)
  then show ?thesis by (simp add: colorInput_input_def listener_frame)
next
  case (MaterialChange i)
  then show ?thesis by (simp add: materialInput_change_def listener_frame)
qed

lemma initial_devices:
  "camera (initial opts) = None" "renderer (initial opts) = None"
  "controls (initial opts) = None"
  by (simp_all add: initial_def resetState_fields declared_def)

section \<open>Invariants of the runs\<close>

subsection \<open>The scene\<close>

lemma scene_inv_resetState: "scene_inv s \<Longrightarrow> scene_inv (resetState opts s)"
  by (auto simp: scene_inv_def resetState_mesh resetState_fields split: option.splits
      dest: notin_set_remove1)

lemma scene_inv_onload_try: "scene_inv s \<Longrightarrow> scene_inv (onload_try g s)"
  by (fastforce simp: scene_inv_def onload_try_fields split: option.splits)

lemma scene_inv_step: "scene_inv s \<Longrightarrow> scene_inv (step opts s e)"
proof (erule step_preserves)
  fix t n i v assume "scene_inv t"
  then have "scene_inv (t\<lparr>loadedFileName := n, fileInfo := i, viewerMessage := v\<rparr>)"
    by (simp add: scene_inv_def)
  then show "scene_inv (resetState opts
      (t\<lparr>loadedFileName := n, fileInfo := i, viewerMessage := v\<rparr>))"
    by (rule scene_inv_resetState)
next
  fix t t' assume "scene_inv t" "updateCostAndEmail t = Inr t'"
  then show "scene_inv t'"
    by (simp add: scene_inv_def updateCostAndEmail_frame)
qed (simp_all add: scene_inv_onload_try, simp_all add: scene_inv_def)

lemma scene_inv_run: "scene_inv (run opts (initial opts) es)"
proof (induction es rule: rev_induct)
  case Nil
  show ?case by (simp add: run_Nil scene_inv_def initial_fields)
next
  case (snoc e es)
  then show ?case by (simp add: run_snoc scene_inv_step)
qed

lemma run_scene_defined:
  "scene (run opts (initial opts) es) = None \<longleftrightarrow> \<not> list_ex successful_load es"
proof (induction es rule: rev_induct)
  case Nil
  show ?case by (simp add: run_Nil initial_fields)
next
  case (snoc e es)
  then show ?case by (simp add: run_snoc step_context)
qed

lemma run_initCalls:
  "initCalls (run opts (initial opts) es) = (if list_ex successful_load es then 1 else 0)"
proof (induction es rule: rev_induct)
  case Nil
  show ?case by (simp add: run_Nil initial_fields)
next
  case (snoc e es)
  then show ?case
    using run_scene_defined [of opts es]
    by (simp add: run_snoc step_context)
qed

lemma run_devices:
  "camera (run opts (initial opts) es) =
     (if list_ex successful_load es then Some PerspectiveCamera else None) \<and>
   renderer (run opts (initial opts) es) =
     (if list_ex successful_load es then Some WebGLRenderer else None) \<and>
   controls (run opts (initial opts) es) =
     (if list_ex successful_load es then Some OrbitControls else None)"
proof (induction es rule: rev_induct)
  case Nil
  show ?case by (simp add: run_Nil initial_devices)
next
  case (snoc e es)
  let ?s = "run opts (initial opts) es"
  show ?case
  proof (cases "list_ex successful_load es")
    case True
    then have "scene ?s \<noteq> None" by (simp add: run_scene_defined)
    with step_context [of opts ?s e] snoc True show ?thesis
      by (simp add: run_snoc)
  next
    case False
    then have "scene ?s = None" by (simp add: run_scene_defined)
    from step_creates_devices [OF this, of opts e] snoc False show ?thesis
      by (simp add: run_snoc)
  qed
qed

subsection \<open>The selected option\<close>

lemma selected_run:
  assumes "list_ex (\<lambda>opt. opt_value opt = []) opts"
  shows "materialInput_selected (run opts (initial opts) es) \<noteq> None"
proof -
  from assms have blank: "find (\<lambda>opt. opt_value opt = []) opts \<noteq> None"
    by (auto simp add: find_None_iff list_ex_iff)
  show ?thesis
  proof (induction es rule: rev_induct)
    case Nil
    show ?case using blank by (simp add: run_Nil initial_fields)
  next
    case (snoc e es)
    have "materialInput_selected (step opts (run opts (initial opts) es) e) \<noteq> None"
      using snoc
    proof (rule step_preserves)
      fix t t' assume "materialInput_selected t \<noteq> None" "updateCostAndEmail t = Inr t'"
      then show "materialInput_selected t' \<noteq> None"
        by (simp add: updateCostAndEmail_frame)
    qed (use blank in \<open>simp_all add: resetState_fields onload_try_fields\<close>)
    then show ?case by (simp add: run_snoc)
  qed
qed

subsection \<open>The link and the file name\<close>

lemma href_inv_update: "updateCostAndEmail t = Inr t' \<Longrightarrow> href_inv t'"
  by (auto simp: updateCostAndEmail_def href_inv_def Let_def split: if_splits option.splits)

lemma href_inv_step: "href_inv s \<Longrightarrow> href_inv (step opts s e)"
proof (cases e)
  case (ReaderLoad r)
  assume "href_inv s"
  show ?thesis
  proof (cases r)
    case ParseFailure
    with ReaderLoad show ?thesis
      by (simp add: reader_onload_def href_inv_def onload_catch_fields)
  next
    case (Parsed g)
    with ReaderLoad show ?thesis
      by (cases "updateCostAndEmail (onload_try g s)")
        (simp_all add: reader_onload_def href_inv_update,
          simp add: href_inv_def onload_catch_fields)
  qed
qed (erule step_preserves;
      simp add: href_inv_def resetState_fields href_inv_update [unfolded href_inv_def])+

lemma href_inv_run: "href_inv (run opts (initial opts) es)"
proof (induction es rule: rev_induct)
  case Nil
  show ?case by (simp add: run_Nil href_inv_def initial_fields)
next
  case (snoc e es)
  then show ?case by (simp add: run_snoc href_inv_step)
qed

lemma name_inv_step: "name_inv s \<Longrightarrow> name_inv (step opts s e)"
proof (erule step_preserves)
  fix t t' assume "name_inv t" "updateCostAndEmail t = Inr t'"
  then show "name_inv t'"
    by (auto simp: updateCostAndEmail_def name_inv_def Let_def split: if_splits option.splits)
qed (simp_all add: name_inv_def resetState_fields onload_try_fields)

lemma name_inv_run: "name_inv (run opts (initial opts) es)"
proof (induction es rule: rev_induct)
  case Nil
  show ?case by (simp add: run_Nil name_inv_def initial_fields)
next
  case (snoc e es)
  then show ?case by (simp add: run_snoc name_inv_step)
qed

subsection \<open>The amounts\<close>

lemma amounts_inv_reset: "amounts_inv opts (resetState opts t)"
  by (auto simp: amounts_inv_def amounts_def resetState_fields non_negative_def
      dest: find_in_set)

lemma amounts_inv_onload_try:
  assumes "amounts_inv opts s" and "list_all non_negative (extents (ReaderLoad (Parsed g)))"
  shows "amounts_inv opts (onload_try g s)"
proof -
  from assms(2) obtain x y z where xyz: "0 \<le> x" "0 \<le> y" "0 \<le> z"
    "vx (boundingBoxSize g) = Num x" "vy (boundingBoxSize g) = Num y"
    "vz (boundingBoxSize g) = Num z"
    by (auto simp: non_negative_iff)
  define v where "v = x * y * z / 1000 * 0.4"
  have vol: "modelVolumeCm3 (onload_try g s) = Num v"
    by (simp add: onload_try_fields xyz v_def)
  have "0 \<le> v" using xyz by (simp add: v_def)
  with assms(1) show ?thesis
    by (auto simp: amounts_inv_def amounts_def onload_try_fields(10-12) vol non_negative_def)
qed

lemma amounts_inv_update:
  assumes inv: "amounts_inv opts t"
    and dens: "list_all (\<lambda>opt. \<not> is_NaN (opt_density opt)) opts"
    and upd: "updateCostAndEmail t = Inr t'"
  shows "amounts_inv opts t'"
proof -
  from inv obtain r where r: "0 \<le> r" "modelVolumeCm3 t = Num r"
    by (auto simp: amounts_inv_def)
  have sel: "\<exists>d. opt_density opt = Num d" if "materialInput_selected t = Some opt" for opt
  proof -
    from that inv have "opt \<in> set opts" by (simp add: amounts_inv_def)
    with dens have "\<not> is_NaN (opt_density opt)" by (simp add: list_all_iff)
    then show ?thesis by (cases "opt_density opt") simp_all
  qed
  show ?thesis
    using upd inv r sel
    by (auto simp: updateCostAndEmail_def Let_def amounts_inv_def amounts_def non_negative_def
        COST_PER_GRAM_def split: if_splits option.splits)
qed

lemma amounts_inv_step:
  assumes "amounts_inv opts s" and "list_all (\<lambda>opt. \<not> is_NaN (opt_density opt)) opts"
    and "list_all non_negative (extents e)"
  shows "amounts_inv opts (step opts s e)"
  using assms(1)
proof (rule step_preserves)
  fix g assume "e = ReaderLoad (Parsed g)" "amounts_inv opts s"
  with assms(3) show "amounts_inv opts (onload_try g s)" by (simp add: amounts_inv_onload_try)
next
  fix t t' assume "amounts_inv opts t" "updateCostAndEmail t = Inr t'"
  with assms(2) show "amounts_inv opts t'" by (simp add: amounts_inv_update)
next
  fix t i assume "amounts_inv opts t" "i < length opts"
  then show "amounts_inv opts (t\<lparr>materialInput_selected := Some (opts ! i)\<rparr>)"
    by (simp add: amounts_inv_def amounts_def)
qed (simp_all add: amounts_inv_reset, simp add: amounts_inv_def amounts_def)

lemma amounts_inv_run:
  assumes "list_all (\<lambda>e. list_all non_negative (extents e)) es"
    and "list_all (\<lambda>opt. \<not> is_NaN (opt_density opt)) opts"
  shows "amounts_inv opts (run opts (initial opts) es)"
  using assms(1)
proof (induction es rule: rev_induct)
  case Nil
  show ?case by (simp add: run_Nil initial_def amounts_inv_reset)
next
  case (snoc e es)
  then show ?case by (simp add: run_snoc amounts_inv_step assms(2))
qed

section \<open>The sample runs\<close>

lemma sample_upload_state:
  "currentMesh (run sample_options (initial sample_options) sample_upload) = Some sample_mesh"
  "modelVolumeCm3 (run sample_options (initial sample_options) sample_upload) = Num 3.2"
  "materialInput_selected (run sample_options (initial sample_options) sample_upload) =
     Some \<lparr>opt_value = [], opt_density = Num 0\<rparr>"
  "scene (run sample_options (initial sample_options) sample_upload) =
     Some [AmbientLight, DirectionalLight, MeshObject sample_mesh]"
  "disposed (run sample_options (initial sample_options) sample_upload) = []"
  by (simp_all add: eval_defs sample_defs)

lemma sample_order_state:
  "currentMesh (run sample_options (initial sample_options) sample_order) = Some sample_mesh"
  "modelVolumeCm3 (run sample_options (initial sample_options) sample_order) = Num 3.2"
  "materialInput_selected (run sample_options (initial sample_options) sample_order) =
     Some sample_PLA"
  "emailLink_href (run sample_options (initial sample_options) sample_order) =
     Some \<lparr>mail_fileName = [], mail_color = lit ''Not specified'',
           mail_materialName = lit ''PLA'', mail_volume = Num 3.2,
           mail_mass = Num 3.968, mail_cost = Num 39.68\<rparr>"
  "costResult (run sample_options (initial sample_options) sample_order) =
     Estimate (Num 3.2) (lit ''PLA'') (Num 1.24) (Num 3.968) (Num 39.68)"
  by (simp_all add: eval_defs sample_defs)

lemma nan_order_state:
  "currentMesh (run sample_options (initial sample_options) nan_order) =
     Some \<lparr>mesh_id = 0, mesh_geometry = nan_geometry\<rparr>"
  "modelVolumeCm3 (run sample_options (initial sample_options) nan_order) = NaN"
  "materialInput_selected (run sample_options (initial sample_options) nan_order) =
     Some sample_PLA"
  "emailLink_href (run sample_options (initial sample_options) nan_order) =
     Some \<lparr>mail_fileName = [], mail_color = lit ''Not specified'',
           mail_materialName = lit ''PLA'', mail_volume = NaN,
           mail_mass = NaN, mail_cost = NaN\<rparr>"
  by (simp_all add: eval_defs sample_defs)

lemma sample_color_state:
  "currentMesh (run sample_options (initial sample_options) sample_red) = Some sample_mesh"
  "modelVolumeCm3 (run sample_options (initial sample_options) sample_red) = Num 3.2"
  "materialInput_selected (run sample_options (initial sample_options) sample_red) =
     Some sample_PLA"
  "colorInput_value (run sample_options (initial sample_options) sample_red) = lit ''  red ''"
  "currentMesh (run sample_options (initial sample_options) sample_blank) = Some sample_mesh"
  "modelVolumeCm3 (run sample_options (initial sample_options) sample_blank) = Num 3.2"
  "materialInput_selected (run sample_options (initial sample_options) sample_blank) =
     Some sample_PLA"
  "colorInput_value (run sample_options (initial sample_options) sample_blank) = lit ''   ''"
  by (simp_all add: eval_defs sample_defs)

lemma nan_density_state:
  "currentMesh (run nan_density_options (initial nan_density_options) sample_order) =
     Some sample_mesh"
  "modelVolumeCm3 (run nan_density_options (initial nan_density_options) sample_order) = Num 3.2"
  "materialInput_selected (run nan_density_options (initial nan_density_options) sample_order) =
     Some sample_PETG"
  by (simp_all add: eval_defs sample_defs)

section \<open>The claims\<close>

subsection \<open>C1: the volume estimate\<close>

text \<open>
  C1. On a page whose material select has an option with the empty value, every read that
  ends with a parsed geometry, in whatever state a run has reached, leaves as stored volume
  the product of the three bounding-box extents, divided by 1000 and then multiplied by
  0.4. The option with the empty value is what \<open>resetState\<close> selects; without it
  \<open>updateCostAndEmail\<close> throws inside the try block and the catch block resets the
  volume.
\<close>

theorem volume_estimate:
  assumes "list_ex (\<lambda>opt. opt_value opt = []) opts"
  shows "modelVolumeCm3 (step opts (run opts (initial opts) es) (ReaderLoad (Parsed g))) =
           js_mul
             (js_div
                (js_mul (js_mul (vx (boundingBoxSize g)) (vy (boundingBoxSize g)))
                   (vz (boundingBoxSize g)))
                (Num 1000))
             (Num 0.4)"
proof -
  let ?s = "run opts (initial opts) es"
  have "materialInput_selected (onload_try g ?s) \<noteq> None"
    using selected_run [OF assms, of es] by (simp add: onload_try_fields)
  then obtain s' where s': "updateCostAndEmail (onload_try g ?s) = Inr s'"
    using updateCostAndEmail_returns by blast
  then have "step opts ?s (ReaderLoad (Parsed g)) = s'"
    by (simp add: reader_onload_def)
  then show ?thesis
    using updateCostAndEmail_frame(1) [OF s'] by (simp add: onload_try_fields)
qed

theorem volume_estimate_witness:
  "list_ex (\<lambda>opt. opt_value opt = []) sample_options \<and>
   modelVolumeCm3
     (step sample_options
        (run sample_options (initial sample_options) [FileChange (Some sample_file)])
        (ReaderLoad (Parsed sample_geometry))) = Num 3.2"
proof -
  have h: "list_ex (\<lambda>opt. opt_value opt = []) sample_options"
    by (simp add: sample_options_def)
  show ?thesis
    using h volume_estimate [OF h, of "[FileChange (Some sample_file)]" sample_geometry]
    by (simp add: sample_geometry_def)
qed

subsection \<open>C2: mass and cost\<close>

text \<open>
  C2. For a loaded model (a mesh is present and the stored volume passes the guard of
  \<open>updateCostAndEmail\<close>) with a selected material of non-empty name and positive
  density, \<open>updateCostAndEmail\<close> returns, and the mass it shows and mails is the stored
  volume times the density, the cost is that mass times 10: two multiplications.
\<close>

theorem mass_and_cost:
  assumes "currentMesh s = Some m" and "\<not> js_le (modelVolumeCm3 s) (Num 0)"
    and "materialInput_selected s = Some opt" and "opt_value opt \<noteq> []"
    and "js_lt (Num 0) (opt_density opt)"
  shows "\<exists>s'. updateCostAndEmail s = Inr s' \<and>
           costResult s' =
             Estimate (modelVolumeCm3 s) (opt_value opt) (opt_density opt)
               (js_mul (modelVolumeCm3 s) (opt_density opt))
               (js_mul (js_mul (modelVolumeCm3 s) (opt_density opt)) (Num 10)) \<and>
           map_option mail_mass (emailLink_href s') =
             Some (js_mul (modelVolumeCm3 s) (opt_density opt)) \<and>
           map_option mail_cost (emailLink_href s') =
             Some (js_mul (js_mul (modelVolumeCm3 s) (opt_density opt)) (Num 10))"
  using assms js_lt_not_le [OF assms(5)]
  by (simp add: updateCostAndEmail_def Let_def COST_PER_GRAM_def)

theorem mass_and_cost_witness:
  "currentMesh (run sample_options (initial sample_options) sample_order) = Some sample_mesh \<and>
   \<not> js_le (modelVolumeCm3 (run sample_options (initial sample_options) sample_order)) (Num 0) \<and>
   materialInput_selected (run sample_options (initial sample_options) sample_order) =
     Some sample_PLA \<and>
   opt_value sample_PLA \<noteq> [] \<and> js_lt (Num 0) (opt_density sample_PLA) \<and>
   (\<exists>s'. updateCostAndEmail (run sample_options (initial sample_options) sample_order) = Inr s' \<and>
      costResult s' = Estimate (Num 3.2) (lit ''PLA'') (Num 1.24) (Num 3.968) (Num 39.68) \<and>
      map_option mail_mass (emailLink_href s') = Some (Num 3.968) \<and>
      map_option mail_cost (emailLink_href s') = Some (Num 39.68))"
proof -
  let ?s = "run sample_options (initial sample_options) sample_order"
  have h1: "currentMesh ?s = Some sample_mesh" by (rule sample_order_state)
  have h2: "\<not> js_le (modelVolumeCm3 ?s) (Num 0)" by (simp add: sample_order_state)
  have h3: "materialInput_selected ?s = Some sample_PLA" by (rule sample_order_state)
  have h4: "opt_value sample_PLA \<noteq> []" by (simp add: sample_PLA_def lit_def)
  have h5: "js_lt (Num 0) (opt_density sample_PLA)" by (simp add: sample_PLA_def)
  show ?thesis
    using h1 h2 h3 h4 h5 mass_and_cost [OF h1 h2 h3 h4 h5]
    by (simp add: sample_order_state sample_PLA_def)
qed

subsection \<open>C3: no negative amounts\<close>

text \<open>
  C3, as stated, fails: a geometry with a NaN coordinate gives a NaN volume, NaN passes
  the guard \<open>modelVolumeCm3 <= 0\<close>, and the mass and the cost shown are NaN, which is not
  non-negative.
\<close>

theorem amounts_counterexample:
  "\<not> non_negative (modelVolumeCm3 (run sample_options (initial sample_options) nan_upload)) \<and>
   costResult (run sample_options (initial sample_options) nan_order) =
     Estimate NaN (lit ''PLA'') (Num 1.24) NaN NaN \<and>
   \<not> list_all non_negative (amounts (run sample_options (initial sample_options) nan_order))"
  by (simp add: eval_defs sample_defs non_negative_def amounts_def)

text \<open>
  C3, amended. When the extents of every parsed geometry are non-negative numbers and the
  density of every option of the page is a number, then in every state that a sequence of
  events reaches, the stored volume and the volume, mass and cost of a displayed estimate
  and of a prepared email are non-negative.
\<close>

theorem amounts_non_negative:
  assumes "list_all (\<lambda>e. list_all non_negative (extents e)) es"
    and "list_all (\<lambda>opt. \<not> is_NaN (opt_density opt)) opts"
  shows "list_all non_negative (amounts (run opts (initial opts) es))"
  using amounts_inv_run [OF assms] by (simp add: amounts_inv_def)

theorem amounts_non_negative_witness:
  "list_all (\<lambda>e. list_all non_negative (extents e)) sample_order \<and>
   list_all (\<lambda>opt. \<not> is_NaN (opt_density opt)) sample_options \<and>
   list_all non_negative (amounts (run sample_options (initial sample_options) sample_order))"
proof -
  have h1: "list_all (\<lambda>e. list_all non_negative (extents e)) sample_order"
    by (simp add: sample_order_def sample_geometry_def non_negative_def)
  have h2: "list_all (\<lambda>opt. \<not> is_NaN (opt_density opt)) sample_options"
    by (simp add: sample_options_def)
  show ?thesis
    using h1 h2 amounts_non_negative [OF h1 h2] by simp
qed

subsection \<open>C4: a file that does not parse\<close>

text \<open>
  C4. When \<open>loader.parse\<close> throws, in whatever state a run has reached, the file info
  shows the load error and everything of the model is reset: no mesh, volume 0, the
  upload prompt instead of a cost, no link, inputs cleared and disabled; the 3D context
  is left as it was. The message that the catch block writes into the viewer is
  overwritten by \<open>resetState\<close>, and the stored file name is already empty; the error
  the user sees is the text of the file info.
\<close>

theorem parse_failure_resets:
  "let s = run opts (initial opts) es;
       s' = step opts s (ReaderLoad ParseFailure)
   in fileInfo s' = LoadError [] \<and>
      fileInfoText toFixed2 (fileInfo s') = lit ''File: '' @ lit '' - Load Error'' \<and>
      viewerMessage s' =
        (if renderer s = None then lit ''Please upload an STL file to view.'' else []) \<and>
      currentMesh s' = None \<and> modelVolumeCm3 s' = Num 0 \<and> loadedFileName s' = [] \<and>
      costResult s' = UploadPrompt \<and>
      emailLink_href s' = None \<and> emailLink_disabled s' \<and> emailStatus s' = [] \<and>
      colorInput_value s' = [] \<and> colorInput_disabled s' \<and> materialInput_disabled s' \<and>
      initCalls s' = initCalls s \<and> meshesCreated s' = meshesCreated s \<and>
      camera s' = camera s \<and> renderer s' = renderer s \<and> controls s' = controls s"
proof -
  let ?s = "run opts (initial opts) es"
  have "scene_inv ?s" by (rule scene_inv_run)
  then have mesh: "scene ?s = None \<Longrightarrow> currentMesh ?s = None"
    by (simp add: scene_inv_def)
  have name: "loadedFileName ?s = []"
    using name_inv_run [of opts es] by (simp add: name_inv_def)
  show ?thesis
    using mesh name
    by (simp add: Let_def reader_onload_def onload_catch_def resetState_fields
        resetState_mesh fileInfoText_def)
qed

theorem parse_failure_resets_witness:
  "fileInfo (step sample_options (run sample_options (initial sample_options) sample_order)
      (ReaderLoad ParseFailure)) = LoadError [] \<and>
   currentMesh (step sample_options (run sample_options (initial sample_options) sample_order)
      (ReaderLoad ParseFailure)) = None \<and>
   modelVolumeCm3 (step sample_options (run sample_options (initial sample_options) sample_order)
      (ReaderLoad ParseFailure)) = Num 0 \<and>
   costResult (step sample_options (run sample_options (initial sample_options) sample_order)
      (ReaderLoad ParseFailure)) = UploadPrompt \<and>
   emailLink_href (step sample_options (run sample_options (initial sample_options) sample_order)
      (ReaderLoad ParseFailure)) = None"
  using parse_failure_resets [of sample_options sample_order]
  by (simp add: Let_def)

subsection \<open>C5: one initialisation\<close>

text \<open>
  C5. In every run \<open>initThreeJS\<close> has been called once if a read has ended with a parsed
  geometry and not at all otherwise. From the first such read on the scene, the camera,
  the renderer and the controls exist; before it none of them does. Once the scene
  exists, no event calls \<open>initThreeJS\<close> again: the count stays, the scene stays defined,
  and the camera, the renderer and the controls are the ones that were there.
\<close>

theorem initThreeJS_once:
  "let s = run opts (initial opts) es;
       s' = step opts s e
   in initCalls s = (if list_ex successful_load es then 1 else 0) \<and>
      (scene s = None \<longleftrightarrow> \<not> list_ex successful_load es) \<and>
      (scene s \<noteq> None \<longrightarrow>
         initCalls s' = initCalls s \<and> scene s' \<noteq> None \<and>
         camera s' = camera s \<and> renderer s' = renderer s \<and> controls s' = controls s) \<and>
      (list_ex successful_load es \<longrightarrow>
         camera s = Some PerspectiveCamera \<and> renderer s = Some WebGLRenderer \<and>
         controls s = Some OrbitControls \<and>
         camera s' = Some PerspectiveCamera \<and> renderer s' = Some WebGLRenderer \<and>
         controls s' = Some OrbitControls) \<and>
      (\<not> list_ex successful_load es \<longrightarrow>
         camera s = None \<and> renderer s = None \<and> controls s = None \<and>
         (successful_load e \<longrightarrow>
            initCalls s' = 1 \<and> scene s' \<noteq> None \<and> camera s' = Some PerspectiveCamera \<and>
            renderer s' = Some WebGLRenderer \<and> controls s' = Some OrbitControls))"
proof -
  let ?s = "run opts (initial opts) es"
  have calls: "initCalls ?s = (if list_ex successful_load es then 1 else 0)"
    by (rule run_initCalls)
  have defined: "scene ?s = None \<longleftrightarrow> \<not> list_ex successful_load es"
    by (rule run_scene_defined)
  have reuse: "scene ?s \<noteq> None \<longrightarrow>
         initCalls (step opts ?s e) = initCalls ?s \<and> scene (step opts ?s e) \<noteq> None \<and>
         camera (step opts ?s e) = camera ?s \<and> renderer (step opts ?s e) = renderer ?s \<and>
         controls (step opts ?s e) = controls ?s"
    using step_context [of opts ?s e] by (cases "scene ?s") auto
  have after: "run opts (initial opts) (es @ [e]) = step opts ?s e"
    by (rule run_snoc)
  have exist: "list_ex successful_load es \<longrightarrow>
         camera ?s = Some PerspectiveCamera \<and> renderer ?s = Some WebGLRenderer \<and>
         controls ?s = Some OrbitControls \<and>
         camera (step opts ?s e) = Some PerspectiveCamera \<and>
         renderer (step opts ?s e) = Some WebGLRenderer \<and>
         controls (step opts ?s e) = Some OrbitControls"
    using run_devices [of opts es] run_devices [of opts "es @ [e]"]
    by (simp add: after)
  have before: "\<not> list_ex successful_load es \<longrightarrow>
         camera ?s = None \<and> renderer ?s = None \<and> controls ?s = None \<and>
         (successful_load e \<longrightarrow>
            initCalls (step opts ?s e) = 1 \<and> scene (step opts ?s e) \<noteq> None \<and>
            camera (step opts ?s e) = Some PerspectiveCamera \<and>
            renderer (step opts ?s e) = Some WebGLRenderer \<and>
            controls (step opts ?s e) = Some OrbitControls)"
  proof
    assume none: "\<not> list_ex successful_load es"
    have dev: "camera ?s = None \<and> renderer ?s = None \<and> controls ?s = None"
      using run_devices [of opts es] none by simp
    have first: "successful_load e \<longrightarrow>
            initCalls (step opts ?s e) = 1 \<and> scene (step opts ?s e) \<noteq> None \<and>
            camera (step opts ?s e) = Some PerspectiveCamera \<and>
            renderer (step opts ?s e) = Some WebGLRenderer \<and>
            controls (step opts ?s e) = Some OrbitControls"
    proof
      assume e: "successful_load e"
      then have ex: "list_ex successful_load (es @ [e])" by simp
      have "initCalls (step opts ?s e) = 1"
        using run_initCalls [of opts "es @ [e]"] ex by (simp only: after if_True)
      moreover have "scene (step opts ?s e) \<noteq> None"
        using run_scene_defined [of opts "es @ [e]"] ex by (simp only: after) simp
      moreover have "camera (step opts ?s e) = Some PerspectiveCamera \<and>
            renderer (step opts ?s e) = Some WebGLRenderer \<and>
            controls (step opts ?s e) = Some OrbitControls"
        using run_devices [of opts "es @ [e]"] ex by (simp only: after if_True)
      ultimately show "initCalls (step opts ?s e) = 1 \<and> scene (step opts ?s e) \<noteq> None \<and>
            camera (step opts ?s e) = Some PerspectiveCamera \<and>
            renderer (step opts ?s e) = Some WebGLRenderer \<and>
            controls (step opts ?s e) = Some OrbitControls"
        by blast
    qed
    from dev first show "camera ?s = None \<and> renderer ?s = None \<and> controls ?s = None \<and>
         (successful_load e \<longrightarrow>
            initCalls (step opts ?s e) = 1 \<and> scene (step opts ?s e) \<noteq> None \<and>
            camera (step opts ?s e) = Some PerspectiveCamera \<and>
            renderer (step opts ?s e) = Some WebGLRenderer \<and>
            controls (step opts ?s e) = Some OrbitControls)"
      by blast
  qed
  show ?thesis
    unfolding Let_def
    by (rule conjI [OF calls conjI [OF defined conjI [OF reuse conjI [OF exist before]]]])
qed

theorem initThreeJS_once_witness:
  "list_ex successful_load sample_upload \<and>
   initCalls (run sample_options (initial sample_options) sample_upload) = 1 \<and>
   scene (run sample_options (initial sample_options) sample_upload) \<noteq> None \<and>
   camera (run sample_options (initial sample_options) sample_upload) =
     Some PerspectiveCamera \<and>
   renderer (run sample_options (initial sample_options) sample_upload) =
     Some WebGLRenderer \<and>
   controls (run sample_options (initial sample_options) sample_upload) =
     Some OrbitControls \<and>
   initCalls (step sample_options (run sample_options (initial sample_options) sample_upload)
     (ReaderLoad (Parsed sample_geometry))) = 1 \<and>
   scene (step sample_options (run sample_options (initial sample_options) sample_upload)
     (ReaderLoad (Parsed sample_geometry))) \<noteq> None \<and>
   camera (step sample_options (run sample_options (initial sample_options) sample_upload)
     (ReaderLoad (Parsed sample_geometry))) = Some PerspectiveCamera \<and>
   renderer (step sample_options (run sample_options (initial sample_options) sample_upload)
     (ReaderLoad (Parsed sample_geometry))) = Some WebGLRenderer \<and>
   controls (step sample_options (run sample_options (initial sample_options) sample_upload)
     (ReaderLoad (Parsed sample_geometry))) = Some OrbitControls \<and>
   \<not> list_ex successful_load [FileChange (Some sample_file)] \<and>
   successful_load (ReaderLoad (Parsed sample_geometry)) \<and>
   camera (run sample_options (initial sample_options) [FileChange (Some sample_file)]) = None \<and>
   renderer (run sample_options (initial sample_options) [FileChange (Some sample_file)]) = None \<and>
   initCalls (step sample_options
     (run sample_options (initial sample_options) [FileChange (Some sample_file)])
     (ReaderLoad (Parsed sample_geometry))) = 1 \<and>
   camera (step sample_options
     (run sample_options (initial sample_options) [FileChange (Some sample_file)])
     (ReaderLoad (Parsed sample_geometry))) = Some PerspectiveCamera \<and>
   renderer (step sample_options
     (run sample_options (initial sample_options) [FileChange (Some sample_file)])
     (ReaderLoad (Parsed sample_geometry))) = Some WebGLRenderer"
proof -
  have h1: "list_ex successful_load sample_upload"
    by (simp add: sample_upload_def)
  have h2: "scene (run sample_options (initial sample_options) sample_upload) \<noteq> None"
    by (simp add: sample_upload_state)
  have h3: "\<not> list_ex successful_load [FileChange (Some sample_file)]"
    by simp
  have h4: "successful_load (ReaderLoad (Parsed sample_geometry))"
    by simp
  show ?thesis
    using h1 h2 h3 h4
      initThreeJS_once [of sample_options sample_upload "ReaderLoad (Parsed sample_geometry)"]
      initThreeJS_once [of sample_options "[FileChange (Some sample_file)]"
        "ReaderLoad (Parsed sample_geometry)"]
    by (simp add: Let_def)
qed

subsection \<open>C6: the email link\<close>

text \<open>
  C6 names the loaded file name among the contents of the link. The link is built by
  \<open>mailtoHref\<close> as the claim says, but in every run the file name of a prepared email
  is empty: the change listener stores the name and then calls \<open>resetState\<close>, which
  clears it before the read ends. The subject is the fixed prefix alone.
\<close>

theorem mail_without_file_name:
  assumes "emailLink_href (run opts (initial opts) es) = Some mail"
  shows "mail_fileName mail = [] \<and> mailSubject mail = lit ''3D Print Quote Request - '' \<and>
         mailtoHref toFixed2 encode mail =
           lit ''mailto:'' @ TARGET_EMAIL @ lit ''?subject='' @
           encode (lit ''3D Print Quote Request - '') @
           lit ''&body='' @ encode (mailBody toFixed2 mail)"
  using assms name_inv_run [of opts es]
  by (simp add: name_inv_def mailSubject_def mailtoHref_def)

theorem mail_without_file_name_witness:
  "file_name sample_file = lit ''cube.stl'' \<and>
   emailLink_href (run sample_options (initial sample_options) sample_order) =
     Some \<lparr>mail_fileName = [], mail_color = lit ''Not specified'',
           mail_materialName = lit ''PLA'', mail_volume = Num 3.2,
           mail_mass = Num 3.968, mail_cost = Num 39.68\<rparr> \<and>
   mailSubject \<lparr>mail_fileName = [], mail_color = lit ''Not specified'',
           mail_materialName = lit ''PLA'', mail_volume = Num 3.2,
           mail_mass = Num 3.968, mail_cost = Num 39.68\<rparr> = lit ''3D Print Quote Request - ''"
proof -
  have h: "emailLink_href (run sample_options (initial sample_options) sample_order) =
     Some \<lparr>mail_fileName = [], mail_color = lit ''Not specified'',
           mail_materialName = lit ''PLA'', mail_volume = Num 3.2,
           mail_mass = Num 3.968, mail_cost = Num 39.68\<rparr>"
    by (rule sample_order_state)
  show ?thesis
    using h mail_without_file_name [OF h] by (simp add: sample_file_def)
qed

subsection \<open>C7: the mesh that is released\<close>

text \<open>
  C7. When a file is selected in a state of a run that has a current mesh, that mesh is in
  the scene and is taken out of it, its geometry and its material are disposed and nothing
  else is, no mesh is current afterwards, and the renderer, the camera and the controls
  are unchanged.
\<close>

theorem new_file_releases_current_mesh:
  assumes "currentMesh (run opts (initial opts) es) = Some m"
  shows "let s = run opts (initial opts) es;
             s' = step opts s (FileChange (Some f))
         in \<exists>children.
              scene s = Some children \<and> MeshObject m \<in> set children \<and>
              scene s' = Some (remove1 (MeshObject m) children) \<and>
              set (remove1 (MeshObject m) children) = set children - {MeshObject m} \<and>
              disposed s' = disposed s @ [GeometryOf (mesh_id m), MaterialOf (mesh_id m)] \<and>
              currentMesh s' = None \<and>
              renderer s' = renderer s \<and> camera s' = camera s \<and> controls s' = controls s"
proof -
  let ?s = "run opts (initial opts) es"
  have inv: "scene_inv ?s" by (rule scene_inv_run)
  with assms obtain children where ch: "scene ?s = Some children"
    "distinct children" "MeshObject m \<in> set children"
    by (cases "scene ?s") (auto simp: scene_inv_def)
  show ?thesis
    using ch assms
    by (simp add: Let_def fileInput_change_def resetState_fields resetState_mesh)
qed

theorem new_file_releases_current_mesh_witness:
  "currentMesh (run sample_options (initial sample_options) sample_upload) = Some sample_mesh \<and>
   scene (run sample_options (initial sample_options) sample_upload) =
     Some [AmbientLight, DirectionalLight, MeshObject sample_mesh] \<and>
   scene (step sample_options (run sample_options (initial sample_options) sample_upload)
     (FileChange (Some sample_file))) = Some [AmbientLight, DirectionalLight] \<and>
   disposed (step sample_options (run sample_options (initial sample_options) sample_upload)
     (FileChange (Some sample_file))) = [GeometryOf 0, MaterialOf 0] \<and>
   currentMesh (step sample_options (run sample_options (initial sample_options) sample_upload)
     (FileChange (Some sample_file))) = None"
proof -
  have h: "currentMesh (run sample_options (initial sample_options) sample_upload) =
      Some sample_mesh"
    by (rule sample_upload_state)
  show ?thesis
    using h new_file_releases_current_mesh [OF h, of sample_file]
    by (auto simp add: Let_def sample_upload_state sample_mesh_def)
qed

subsection \<open>C8: when the link is withdrawn\<close>

text \<open>
  C8, as stated, fails: after the upload of the NaN geometry and the choice of a material
  the stored volume is NaN, which is not strictly positive, and yet the link has an href
  and \<open>updateCostAndEmail\<close> keeps it.
\<close>

theorem email_link_counterexample:
  "currentMesh (run sample_options (initial sample_options) nan_order) \<noteq> None \<and>
   \<not> js_lt (Num 0) (modelVolumeCm3 (run sample_options (initial sample_options) nan_order)) \<and>
   emailLink_href (run sample_options (initial sample_options) nan_order) \<noteq> None \<and>
   (case updateCostAndEmail (run sample_options (initial sample_options) nan_order) of
      Inr s' \<Rightarrow> emailLink_href s' \<noteq> None \<and> \<not> emailLink_disabled s'
    | Inl e \<Rightarrow> False)"
  by (simp add: nan_order_state updateCostAndEmail_def Let_def sample_PLA_def lit_def)

text \<open>
  C8, amended. Whenever no mesh is loaded or the stored volume compares less than or equal
  to zero, \<open>updateCostAndEmail\<close> shows the upload prompt, removes the href, marks the link
  disabled and clears the status; and in every state of a run a link with an href exists
  only with a mesh loaded and a stored volume that does not compare less than or equal to
  zero (a positive number, or NaN).
\<close>

theorem email_link_guard:
  "(currentMesh s = None \<or> js_le (modelVolumeCm3 s) (Num 0) \<longrightarrow>
      updateCostAndEmail s =
        Inr (s\<lparr>costResult := UploadPrompt, emailLink_disabled := True,
               emailLink_href := None, emailStatus := []\<rparr>)) \<and>
   (emailLink_href (run opts (initial opts) es) \<noteq> None \<longrightarrow>
      currentMesh (run opts (initial opts) es) \<noteq> None \<and>
      \<not> js_le (modelVolumeCm3 (run opts (initial opts) es)) (Num 0))"
  using href_inv_run [of opts es]
  by (simp add: updateCostAndEmail_def href_inv_def)

theorem email_link_guard_witness:
  "currentMesh (initial sample_options) = None \<and>
   updateCostAndEmail (initial sample_options) =
     Inr ((initial sample_options)\<lparr>costResult := UploadPrompt, emailLink_disabled := True,
            emailLink_href := None, emailStatus := []\<rparr>) \<and>
   emailLink_href (run sample_options (initial sample_options) sample_order) \<noteq> None \<and>
   currentMesh (run sample_options (initial sample_options) sample_order) \<noteq> None \<and>
   \<not> js_le (modelVolumeCm3 (run sample_options (initial sample_options) sample_order)) (Num 0)"
proof -
  have h1: "currentMesh (initial sample_options) = None" by (rule initial_fields)
  have h2: "emailLink_href (run sample_options (initial sample_options) sample_order) \<noteq> None"
    by (simp add: sample_order_state)
  show ?thesis
    using h1 h2 email_link_guard [of "initial sample_options" sample_options sample_order]
    by simp
qed

subsection \<open>C9: the color of the email\<close>

text \<open>
  C9. When \<open>updateCostAndEmail\<close> builds the link (mesh loaded, volume past the guard,
  valid material), the color of the email is \<open>Not specified\<close> if the color input is
  empty or holds only white space, and the trimmed input otherwise; it is never empty.
\<close>

theorem color_field:
  assumes "currentMesh s = Some m" and "\<not> js_le (modelVolumeCm3 s) (Num 0)"
    and "materialInput_selected s = Some opt" and "opt_value opt \<noteq> []"
    and "\<not> js_le (opt_density opt) (Num 0)"
  shows "\<exists>s' mail. updateCostAndEmail s = Inr s' \<and> emailLink_href s' = Some mail \<and>
           mail_color mail =
             (if list_all isWhiteSpace (colorInput_value s) then lit ''Not specified''
              else trim (colorInput_value s)) \<and>
           mail_color mail \<noteq> []"
  using assms
  by (simp add: updateCostAndEmail_def Let_def trim_Nil_iff lit_def)

theorem color_field_witness:
  "currentMesh (run sample_options (initial sample_options) sample_red) = Some sample_mesh \<and>
   \<not> js_le (modelVolumeCm3 (run sample_options (initial sample_options) sample_red)) (Num 0) \<and>
   materialInput_selected (run sample_options (initial sample_options) sample_red) =
     Some sample_PLA \<and>
   opt_value sample_PLA \<noteq> [] \<and> \<not> js_le (opt_density sample_PLA) (Num 0) \<and>
   (\<exists>s' mail. updateCostAndEmail (run sample_options (initial sample_options) sample_red) = Inr s' \<and>
      emailLink_href s' = Some mail \<and> mail_color mail = lit ''red'') \<and>
   (\<exists>s' mail. updateCostAndEmail (run sample_options (initial sample_options) sample_blank) = Inr s' \<and>
      emailLink_href s' = Some mail \<and> mail_color mail = lit ''Not specified'')"
proof -
  let ?r = "run sample_options (initial sample_options) sample_red"
  let ?b = "run sample_options (initial sample_options) sample_blank"
  have h1: "currentMesh ?r = Some sample_mesh" and b1: "currentMesh ?b = Some sample_mesh"
    by (rule sample_color_state)+
  have h2: "\<not> js_le (modelVolumeCm3 ?r) (Num 0)" and b2: "\<not> js_le (modelVolumeCm3 ?b) (Num 0)"
    by (simp_all add: sample_color_state)
  have h3: "materialInput_selected ?r = Some sample_PLA"
    and b3: "materialInput_selected ?b = Some sample_PLA"
    by (rule sample_color_state)+
  have h4: "opt_value sample_PLA \<noteq> []" by (simp add: sample_PLA_def lit_def)
  have h5: "\<not> js_le (opt_density sample_PLA) (Num 0)" by (simp add: sample_PLA_def)
  show ?thesis
    using h1 h2 h3 h4 h5 color_field [OF h1 h2 h3 h4 h5] color_field [OF b1 b2 b3 h4 h5]
    by (auto simp add: sample_color_state trim_samples)
qed

subsection \<open>C10: the material guard\<close>

text \<open>
  C10. Past the first guard and with an option selected, \<open>updateCostAndEmail\<close> returns,
  and it shows the material prompt with the link disabled and without href exactly when
  the value of the option is empty or its density compares less than or equal to zero;
  with any other option, a NaN density included, it computes the mass and the cost and
  enables the link.
\<close>

theorem material_guard:
  assumes "currentMesh s = Some m" and "\<not> js_le (modelVolumeCm3 s) (Num 0)"
    and "materialInput_selected s = Some opt"
  shows "\<exists>s'. updateCostAndEmail s = Inr s' \<and>
           ((costResult s' = MaterialPrompt \<and> emailLink_disabled s' \<and> emailLink_href s' = None)
              \<longleftrightarrow> (opt_value opt = [] \<or> js_le (opt_density opt) (Num 0))) \<and>
           (\<not> (opt_value opt = [] \<or> js_le (opt_density opt) (Num 0)) \<longrightarrow>
              costResult s' =
                Estimate (modelVolumeCm3 s) (opt_value opt) (opt_density opt)
                  (js_mul (modelVolumeCm3 s) (opt_density opt))
                  (js_mul (js_mul (modelVolumeCm3 s) (opt_density opt)) COST_PER_GRAM) \<and>
              emailLink_href s' \<noteq> None \<and> \<not> emailLink_disabled s')"
  using assms
  by (simp add: updateCostAndEmail_def Let_def)

theorem material_guard_witness:
  "currentMesh (run sample_options (initial sample_options) sample_upload) = Some sample_mesh \<and>
   \<not> js_le (modelVolumeCm3 (run sample_options (initial sample_options) sample_upload)) (Num 0) \<and>
   materialInput_selected (run sample_options (initial sample_options) sample_upload) =
     Some \<lparr>opt_value = [], opt_density = Num 0\<rparr> \<and>
   (\<exists>s'. updateCostAndEmail (run sample_options (initial sample_options) sample_upload) = Inr s' \<and>
      costResult s' = MaterialPrompt \<and> emailLink_disabled s' \<and> emailLink_href s' = None) \<and>
   currentMesh (run nan_density_options (initial nan_density_options) sample_order) =
     Some sample_mesh \<and>
   \<not> js_le (modelVolumeCm3 (run nan_density_options (initial nan_density_options) sample_order))
       (Num 0) \<and>
   materialInput_selected (run nan_density_options (initial nan_density_options) sample_order) =
     Some sample_PETG \<and>
   \<not> (opt_value sample_PETG = [] \<or> js_le (opt_density sample_PETG) (Num 0)) \<and>
   (\<exists>s'. updateCostAndEmail (run nan_density_options (initial nan_density_options) sample_order) =
        Inr s' \<and>
      costResult s' = Estimate (Num 3.2) (lit ''PETG'') NaN NaN NaN \<and>
      emailLink_href s' \<noteq> None \<and> \<not> emailLink_disabled s')"
proof -
  let ?u = "run sample_options (initial sample_options) sample_upload"
  let ?n = "run nan_density_options (initial nan_density_options) sample_order"
  have u1: "currentMesh ?u = Some sample_mesh" by (rule sample_upload_state)
  have u2: "\<not> js_le (modelVolumeCm3 ?u) (Num 0)" by (simp add: sample_upload_state)
  have u3: "materialInput_selected ?u = Some \<lparr>opt_value = [], opt_density = Num 0\<rparr>"
    by (rule sample_upload_state)
  have n1: "currentMesh ?n = Some sample_mesh" by (rule nan_density_state)
  have n2: "\<not> js_le (modelVolumeCm3 ?n) (Num 0)" by (simp add: nan_density_state)
  have n3: "materialInput_selected ?n = Some sample_PETG" by (rule nan_density_state)
  have n4: "\<not> (opt_value sample_PETG = [] \<or> js_le (opt_density sample_PETG) (Num 0))"
    by (simp add: sample_PETG_def lit_def)
  show ?thesis
    using u1 u2 u3 n1 n2 n3 n4 material_guard [OF u1 u2 u3] material_guard [OF n1 n2 n3]
    by (auto simp add: sample_upload_state nan_density_state sample_PETG_def lit_def)
qed

end
